theory Spec2Isabelle
  imports Main "HOL-Library.Sublist"
begin

section \<open>Python values met by the adapter\<close>

text \<open>
  The two source files, \<^verbatim>\<open>github_server.py\<close> (synchronous, on \<^verbatim>\<open>requests\<close>) and
  \<^verbatim>\<open>githubclaude.py\<close> (asynchronous, on \<^verbatim>\<open>httpx\<close>), turn a tool call into one HTTP
  request and render the decoded JSON answer with f-strings. The embedding keeps Python's
  view of the data: what \<^verbatim>\<open>response.json()\<close> returns is a Python value, \<^verbatim>\<open>None\<close>
  included, and a JSON object is a \<^verbatim>\<open>dict\<close> whose items are kept in insertion order
  (the keys of a dict are distinct; a lookup reads the first item with the key).

  A \<open>char\<close> stands for a code point below 256 and a \<open>string\<close> for a Python
  \<^verbatim>\<open>str\<close> over those code points. JSON numbers are the integers (Python \<^verbatim>\<open>int\<close>);
  fractional numbers are not part of the model.
\<close>

datatype json =
    JNull
  | JBool bool
  | JInt int
  | JStr string
  | JArr "json list"
  | JObj "(string \<times> json) list"

text \<open>Python truthiness, as tested by \<^verbatim>\<open>if not data\<close> and \<^verbatim>\<open>if commit_message\<close>.\<close>

fun truthy :: "json \<Rightarrow> bool" where
  "truthy JNull = False"
| "truthy (JBool b) = b"
| "truthy (JInt i) = (i \<noteq> 0)"
| "truthy (JStr s) = (s \<noteq> [])"
| "truthy (JArr xs) = (xs \<noteq> [])"
| "truthy (JObj kvs) = (kvs \<noteq> [])"

text \<open>
  \<^verbatim>\<open>d.get(key, default)\<close>: the value bound to the key when the key is in the dict (whatever
  that value is, \<^verbatim>\<open>None\<close> included), the default otherwise. \<^verbatim>\<open>d.get(key)\<close> is
  \<open>dict_get d key JNull\<close>.
\<close>

definition dict_get :: "(string \<times> json) list \<Rightarrow> string \<Rightarrow> json \<Rightarrow> json" where
  "dict_get d k dflt = (case map_of d k of None \<Rightarrow> dflt | Some v \<Rightarrow> v)"

subsection \<open>Rendering: \<^verbatim>\<open>str\<close> and \<^verbatim>\<open>repr\<close>\<close>

abbreviation NL :: char where "NL \<equiv> CHR 0x0A"
abbreviation BSL :: char where "BSL \<equiv> CHR 0x5C"
abbreviation SQ :: char where "SQ \<equiv> CHR 0x27"
abbreviation DQ :: char where "DQ \<equiv> CHR 0x22"

fun dec_digits :: "nat \<Rightarrow> string" where
  "dec_digits n =
     (if n < 10 then [''0123456789'' ! n]
      else dec_digits (n div 10) @ [''0123456789'' ! (n mod 10)])"

declare dec_digits.simps [simp del]

definition str_int :: "int \<Rightarrow> string" where
  "str_int i = (if i < 0 then CHR ''-'' # dec_digits (nat (- i)) else dec_digits (nat i))"

definition str_bool :: "bool \<Rightarrow> string" where
  "str_bool b = (if b then ''True'' else ''False'')"

definition hex2 :: "nat \<Rightarrow> string" where
  "hex2 n = [''0123456789abcdef'' ! (n div 16 mod 16), ''0123456789abcdef'' ! (n mod 16)]"

definition isprintable :: "char \<Rightarrow> bool" where
  "isprintable c =
     (let n = (of_char c :: nat) in (32 \<le> n \<and> n < 127) \<or> (161 \<le> n \<and> n \<noteq> 173))"

text \<open>One character of \<^verbatim>\<open>repr\<close> of a \<^verbatim>\<open>str\<close>, with \<open>q\<close> the quote chosen for it.\<close>

definition repr_char :: "char \<Rightarrow> char \<Rightarrow> string" where
  "repr_char q c =
     (if c = q \<or> c = BSL then [BSL, c]
      else if c = CHR 0x09 then [BSL, CHR ''t'']
      else if c = NL then [BSL, CHR ''n'']
      else if c = CHR 0x0D then [BSL, CHR ''r'']
      else if isprintable c then [c]
      else BSL # CHR ''x'' # hex2 (of_char c))"

definition repr_str :: "string \<Rightarrow> string" where
  "repr_str s =
     (let q = (if SQ \<in> set s \<and> DQ \<notin> set s then DQ else SQ)
      in q # concat (map (repr_char q) s) @ [q])"

text \<open>\<^verbatim>\<open>sep.join(parts)\<close>.\<close>

fun join :: "string \<Rightarrow> string list \<Rightarrow> string" where
  "join sep [] = []"
| "join sep [x] = x"
| "join sep (x # y # ys) = x @ sep @ join sep (y # ys)"

fun py_repr :: "json \<Rightarrow> string" where
  "py_repr JNull = ''None''"
| "py_repr (JBool b) = str_bool b"
| "py_repr (JInt i) = str_int i"
| "py_repr (JStr s) = repr_str s"
| "py_repr (JArr xs) = ''['' @ join '', '' (map py_repr xs) @ '']''"
| "py_repr (JObj kvs) =
     ''{'' @ join '', '' (map (\<lambda>kv. repr_str (fst kv) @ '': '' @ py_repr (snd kv)) kvs) @ ''}''"

text \<open>
  What an f-string field \<^verbatim>\<open>{v}\<close> inserts: \<^verbatim>\<open>str(v)\<close>. A \<^verbatim>\<open>str\<close> is inserted as it
  is; every other value as its \<^verbatim>\<open>repr\<close>, so \<^verbatim>\<open>None\<close> becomes the four letters
  \<^verbatim>\<open>None\<close>.
\<close>

fun py_str :: "json \<Rightarrow> string" where
  "py_str (JStr s) = s"
| "py_str v = py_repr v"

text \<open>
  \<^verbatim>\<open>str.isspace\<close> on one code point below 256, and \<^verbatim>\<open>str.strip()\<close>, which removes
  such characters from both ends (\<^verbatim>\<open>lstrip\<close> from the left end, \<^verbatim>\<open>rstrip\<close> from the right).
\<close>

definition isspace :: "char \<Rightarrow> bool" where
  "isspace c =
     (let n = (of_char c :: nat)
      in (9 \<le> n \<and> n \<le> 13) \<or> (28 \<le> n \<and> n \<le> 32) \<or> n = 133 \<or> n = 160)"

definition lstrip :: "string \<Rightarrow> string" where
  "lstrip s = dropWhile isspace s"

definition rstrip :: "string \<Rightarrow> string" where
  "rstrip s = rev (dropWhile isspace (rev s))"

definition strip :: "string \<Rightarrow> string" where
  "strip s = rstrip (lstrip s)"


section \<open>The remote call\<close>

text \<open>
  One operation issues one HTTP request. What comes back is outside the program, so every
  operation takes the network as a function from the request it builds to an outcome:
  \<^item> \<open>Raised e\<close>: the request itself or \<^verbatim>\<open>response.raise_for_status()\<close> raised \<open>e\<close>
    (no connection, a timeout, a rejected status);
  \<^item> \<open>Replied b\<close>: a response passed \<^verbatim>\<open>raise_for_status()\<close>; \<open>b\<close> is what
    \<^verbatim>\<open>response.json()\<close> does with its body: it raises (\<open>Undecodable\<close>: an empty or
    malformed body) or returns a Python value (\<open>Decoded\<close>).

  The timeout of 30 seconds that the asynchronous helper sets is one of the ways to get
  \<open>Raised\<close>; it is not a field of the request below.

  An exception is a \<^verbatim>\<open>requests.RequestException\<close> with its \<^verbatim>\<open>str(e)\<close>, or something
  else. The synchronous file catches the first kind only; the asynchronous helper catches
  every exception. \<open>AttributeError\<close> and \<open>TypeError\<close> are what Python raises for
  \<^verbatim>\<open>.get\<close> on a value that is not a dict and for a subscript on a value that does not
  support it (slicing a dict raises \<^verbatim>\<open>TypeError\<close>, from Python 3.12
  \<^verbatim>\<open>KeyError\<close>; neither is a \<^verbatim>\<open>RequestException\<close>).
\<close>

datatype pyexc =
    RequestException string
  | OtherException string
  | AttributeError
  | TypeError

datatype body = Undecodable pyexc | Decoded json

datatype remote = Raised pyexc | Replied body

record request =
  http_method :: string
  url :: string
  headers :: "(string \<times> string) list"
  json_body :: "json option"

type_synonym network = "request \<Rightarrow> remote"

text \<open>\<^verbatim>\<open>response.json()\<close>.\<close>

definition response_json :: "body \<Rightarrow> pyexc + json" where
  "response_json b = (case b of Undecodable e \<Rightarrow> Inl e | Decoded j \<Rightarrow> Inr j)"

text \<open>
  The attribute lookup \<^verbatim>\<open>v.get\<close>: only a dict has it among the values
  \<^verbatim>\<open>response.json()\<close> can return.
\<close>

fun as_dict :: "json \<Rightarrow> pyexc + (string \<times> json) list" where
  "as_dict (JObj d) = Inr d"
| "as_dict v = Inl AttributeError"

text \<open>\<^verbatim>\<open>repos[:10]\<close>, as the sequence the \<^verbatim>\<open>for\<close> loop then walks, and \<^verbatim>\<open>len(repos)\<close>.\<close>

fun slice10 :: "json \<Rightarrow> pyexc + json list" where
  "slice10 (JArr xs) = Inr (take 10 xs)"
| "slice10 (JStr s) = Inr (map (\<lambda>c. JStr [c]) (take 10 s))"
| "slice10 v = Inl TypeError"

fun py_len :: "json \<Rightarrow> pyexc + nat" where
  "py_len (JArr xs) = Inr (length xs)"
| "py_len (JStr s) = Inr (length s)"
| "py_len (JObj kvs) = Inr (length kvs)"
| "py_len v = Inl TypeError"

section \<open>Text shared by the two files\<close>

text \<open>
  The f-string templates of the two files have the same lines. The synchronous file
  closes each triple-quoted template on an indented line, so its text ends with a newline
  and eight blanks where the asynchronous one ends with the newline; both then call
  \<^verbatim>\<open>.strip()\<close>. The definitions below are the templates up to and including that
  last newline.
\<close>

definition user_info_text :: "(string \<times> json) list \<Rightarrow> string" where
  "user_info_text d =
     [NL] @ ''User: '' @ py_str (dict_get d ''name'' (JStr ''N/A'')) @
       '' (@'' @ py_str (dict_get d ''login'' JNull) @ '')'' @
     [NL] @ ''Bio: '' @ py_str (dict_get d ''bio'' (JStr ''N/A'')) @
     [NL] @ ''Public Repos: '' @ py_str (dict_get d ''public_repos'' (JInt 0)) @
     [NL] @ ''Followers: '' @ py_str (dict_get d ''followers'' (JInt 0)) @
     [NL] @ ''Following: '' @ py_str (dict_get d ''following'' (JInt 0)) @
     [NL] @ ''Location: '' @ py_str (dict_get d ''location'' (JStr ''N/A'')) @
     [NL] @ ''Company: '' @ py_str (dict_get d ''company'' (JStr ''N/A'')) @
     [NL] @ ''Created: '' @ py_str (dict_get d ''created_at'' (JStr ''N/A'')) @
     [NL]"

definition repo_created_text :: "(string \<times> json) list \<Rightarrow> string" where
  "repo_created_text d =
     [NL] @ ''Repository created successfully!'' @
     [NL] @ ''Name: '' @ py_str (dict_get d ''full_name'' JNull) @
     [NL] @ ''URL: '' @ py_str (dict_get d ''html_url'' JNull) @
     [NL] @ ''Description: '' @ py_str (dict_get d ''description'' (JStr ''N/A'')) @
     [NL] @ ''Private: '' @ py_str (dict_get d ''private'' (JBool False)) @
     [NL]"

definition pr_created_text :: "(string \<times> json) list \<Rightarrow> string" where
  "pr_created_text d =
     [NL] @ ''Pull Request created successfully!'' @
     [NL] @ ''Title: '' @ py_str (dict_get d ''title'' JNull) @
     [NL] @ ''PR #: '' @ py_str (dict_get d ''number'' JNull) @
     [NL] @ ''URL: '' @ py_str (dict_get d ''html_url'' JNull) @
     [NL] @ ''State: '' @ py_str (dict_get d ''state'' JNull) @
     [NL]"

definition pr_merged_text :: "int \<Rightarrow> (string \<times> json) list \<Rightarrow> string" where
  "pr_merged_text pull_number d =
     [NL] @ ''Pull Request #'' @ str_int pull_number @ '' merged successfully!'' @
     [NL] @ ''Message: '' @ py_str (dict_get d ''message'' JNull) @
     [NL] @ ''SHA: '' @ py_str (dict_get d ''sha'' JNull) @
     [NL]"

definition deleted_text :: "string \<Rightarrow> string \<Rightarrow> string" where
  "deleted_text owner repo = ''Repository '' @ owner @ ''/'' @ repo @ '' was deleted successfully!''"

text \<open>
  The listing loop, the same in both files:
  \<^verbatim>\<open>for repo in repos[:10]: repo_list.append(f"- {..}: {..} ({..})")\<close>.
  It stops with \<^verbatim>\<open>AttributeError\<close> at the first element that is not a dict.
\<close>

definition repo_entry :: "(string \<times> json) list \<Rightarrow> string" where
  "repo_entry d =
     ''- '' @ py_str (dict_get d ''full_name'' JNull) @ '': '' @
     py_str (dict_get d ''description'' (JStr ''No description'')) @
     '' ('' @ py_str (dict_get d ''html_url'' JNull) @ '')''"

fun repo_loop :: "json list \<Rightarrow> string list \<Rightarrow> pyexc + string list" where
  "repo_loop [] repo_list = Inr repo_list"
| "repo_loop (repo # rest) repo_list =
     (case as_dict repo of
        Inl e \<Rightarrow> Inl e
      | Inr d \<Rightarrow> repo_loop rest (repo_list @ [repo_entry d]))"

text \<open>Everything after the emptiness test of \<^verbatim>\<open>list_repositories\<close>.\<close>

definition repo_listing :: "json \<Rightarrow> pyexc + string" where
  "repo_listing repos =
     (case slice10 repos of
        Inl e \<Rightarrow> Inl e
      | Inr first \<Rightarrow>
          (case repo_loop first [] of
             Inl e \<Rightarrow> Inl e
           | Inr repo_list \<Rightarrow>
               (case py_len repos of
                  Inl e \<Rightarrow> Inl e
                | Inr n \<Rightarrow>
                    Inr (''Repositories:'' @ [NL] @ join [NL] repo_list @
                         (if n > 10
                          then [NL, NL] @ ''(Showing 10 of '' @ str_int (int n) @ '' repositories)''
                          else [])))))"

definition hello_world :: "string \<Rightarrow> string" where
  "hello_world name = ''Hello, '' @ name @ ''!''"

section \<open>The synchronous file, \<^verbatim>\<open>github_server.py\<close>\<close>

text \<open>
  \<open>pat\<close> is the value of \<^verbatim>\<open>GITHUB_PAT\<close>: \<^verbatim>\<open>os.getenv\<close> gives \<^verbatim>\<open>None\<close> or a string,
  and the empty string is as false as \<^verbatim>\<open>None\<close>.
\<close>

definition headers_sync :: "string option \<Rightarrow> (string \<times> string) list" where
  "headers_sync pat =
     (case pat of
        None \<Rightarrow> []
      | Some t \<Rightarrow> if t \<noteq> [] then [(''Authorization'', ''token '' @ t)] else [])"

text \<open>
  \<^verbatim>\<open>except requests.RequestException as e: return f"<msg>{str(e)}"\<close> around a
  \<^verbatim>\<open>try\<close> body: any other exception passes through.
\<close>

definition except_RequestException :: "string \<Rightarrow> pyexc + string \<Rightarrow> pyexc + string" where
  "except_RequestException msg r =
     (case r of
        Inl (RequestException e) \<Rightarrow> Inr (msg @ e)
      | Inl other \<Rightarrow> Inl other
      | Inr s \<Rightarrow> Inr s)"

text \<open>
  A \<^verbatim>\<open>try\<close> body of the form request, \<^verbatim>\<open>raise_for_status()\<close>,
  \<^verbatim>\<open>data = response.json()\<close>, then the formatting of \<open>data\<close>.
\<close>

definition fetch_json :: "remote \<Rightarrow> (json \<Rightarrow> pyexc + string) \<Rightarrow> pyexc + string" where
  "fetch_json r format =
     (case r of
        Raised e \<Rightarrow> Inl e
      | Replied b \<Rightarrow> (case response_json b of Inl e \<Rightarrow> Inl e | Inr data \<Rightarrow> format data))"

definition format_dict :: "((string \<times> json) list \<Rightarrow> string) \<Rightarrow> json \<Rightarrow> pyexc + string" where
  "format_dict text data = (case as_dict data of Inl e \<Rightarrow> Inl e | Inr d \<Rightarrow> Inr (text d))"

definition get_user_info_request :: "string option \<Rightarrow> string \<Rightarrow> request" where
  "get_user_info_request pat username =
     \<lparr>http_method = ''GET'', url = ''https://api.github.com/users/'' @ username,
      headers = headers_sync pat, json_body = None\<rparr>"

definition get_user_info :: "string option \<Rightarrow> network \<Rightarrow> string \<Rightarrow> pyexc + string" where
  "get_user_info pat net username =
     except_RequestException ''Error fetching user info: ''
       (fetch_json (net (get_user_info_request pat username))
          (format_dict (\<lambda>user_data. strip (user_info_text user_data @ ''        ''))))"

definition create_repository_sync_request ::
    "string option \<Rightarrow> string \<Rightarrow> string \<Rightarrow> bool \<Rightarrow> request" where
  "create_repository_sync_request pat name description private =
     \<lparr>http_method = ''POST'', url = ''https://api.github.com/user/repos'',
      headers = headers_sync pat,
      json_body = Some (JObj [(''name'', JStr name), (''description'', JStr description),
                              (''private'', JBool private)])\<rparr>"

definition create_repository_sync ::
    "string option \<Rightarrow> network \<Rightarrow> string \<Rightarrow> string \<Rightarrow> bool \<Rightarrow> pyexc + string" where
  "create_repository_sync pat net name description private =
     except_RequestException ''Error creating repository: ''
       (fetch_json (net (create_repository_sync_request pat name description private))
          (format_dict (\<lambda>repo_data. strip (repo_created_text repo_data @ ''        ''))))"

definition delete_repository_sync_request :: "string option \<Rightarrow> string \<Rightarrow> string \<Rightarrow> request" where
  "delete_repository_sync_request pat owner repo =
     \<lparr>http_method = ''DELETE'', url = ''https://api.github.com/repos/'' @ owner @ ''/'' @ repo,
      headers = headers_sync pat, json_body = None\<rparr>"

text \<open>The body of the response is never read here: no \<^verbatim>\<open>response.json()\<close>.\<close>

definition delete_repository_sync ::
    "string option \<Rightarrow> network \<Rightarrow> string \<Rightarrow> string \<Rightarrow> pyexc + string" where
  "delete_repository_sync pat net owner repo =
     except_RequestException ''Error deleting repository: ''
       (case net (delete_repository_sync_request pat owner repo) of
          Raised e \<Rightarrow> Inl e
        | Replied b \<Rightarrow> Inr (deleted_text owner repo))"

definition create_pull_request_sync_request ::
    "string option \<Rightarrow> string \<Rightarrow> string \<Rightarrow> string \<Rightarrow> string \<Rightarrow> string \<Rightarrow> string \<Rightarrow> request" where
  "create_pull_request_sync_request pat owner repo title head base body =
     \<lparr>http_method = ''POST'',
      url = ''https://api.github.com/repos/'' @ owner @ ''/'' @ repo @ ''/pulls'',
      headers = headers_sync pat,
      json_body = Some (JObj [(''title'', JStr title), (''head'', JStr head),
                              (''base'', JStr base), (''body'', JStr body)])\<rparr>"

definition create_pull_request_sync ::
    "string option \<Rightarrow> network \<Rightarrow> string \<Rightarrow> string \<Rightarrow> string \<Rightarrow> string \<Rightarrow> string \<Rightarrow> string
      \<Rightarrow> pyexc + string" where
  "create_pull_request_sync pat net owner repo title head base body =
     except_RequestException ''Error creating pull request: ''
       (fetch_json (net (create_pull_request_sync_request pat owner repo title head base body))
          (format_dict (\<lambda>pr_data. strip (pr_created_text pr_data @ ''        ''))))"

text \<open>
  \<^verbatim>\<open>payload = {}\<close>, then \<^verbatim>\<open>payload["commit_message"] = commit_message\<close> under
  \<^verbatim>\<open>if commit_message\<close>.
\<close>

definition merge_payload_sync :: "string \<Rightarrow> (string \<times> json) list" where
  "merge_payload_sync commit_message =
     (let payload = [] in
      if commit_message \<noteq> [] then payload @ [(''commit_message'', JStr commit_message)]
      else payload)"

definition merge_pull_request_sync_request ::
    "string option \<Rightarrow> string \<Rightarrow> string \<Rightarrow> int \<Rightarrow> string \<Rightarrow> request" where
  "merge_pull_request_sync_request pat owner repo pull_number commit_message =
     \<lparr>http_method = ''PUT'',
      url = ''https://api.github.com/repos/'' @ owner @ ''/'' @ repo @ ''/pulls/'' @
            str_int pull_number @ ''/merge'',
      headers = headers_sync pat,
      json_body = Some (JObj (merge_payload_sync commit_message))\<rparr>"

definition merge_pull_request_sync ::
    "string option \<Rightarrow> network \<Rightarrow> string \<Rightarrow> string \<Rightarrow> int \<Rightarrow> string \<Rightarrow> pyexc + string" where
  "merge_pull_request_sync pat net owner repo pull_number commit_message =
     except_RequestException ''Error merging pull request: ''
       (fetch_json (net (merge_pull_request_sync_request pat owner repo pull_number commit_message))
          (format_dict (\<lambda>merge_data. strip (pr_merged_text pull_number merge_data @ ''        ''))))"

definition list_repositories_sync_request :: "string option \<Rightarrow> string \<Rightarrow> request" where
  "list_repositories_sync_request pat username =
     \<lparr>http_method = ''GET'',
      url = (if username \<noteq> [] then ''https://api.github.com/users/'' @ username @ ''/repos''
             else ''https://api.github.com/user/repos''),
      headers = headers_sync pat, json_body = None\<rparr>"

definition list_repositories_sync :: "string option \<Rightarrow> network \<Rightarrow> string \<Rightarrow> pyexc + string" where
  "list_repositories_sync pat net username =
     except_RequestException ''Error listing repositories: ''
       (fetch_json (net (list_repositories_sync_request pat username))
          (\<lambda>repos. if \<not> truthy repos then Inr ''No repositories found.''
                   else repo_listing repos))"


section \<open>The asynchronous file, \<^verbatim>\<open>githubclaude.py\<close>\<close>

definition GITHUB_API_BASE :: string where
  "GITHUB_API_BASE = ''https://api.github.com''"

definition USER_AGENT :: string where
  "USER_AGENT = ''github-mcp-client/1.0''"

definition headers_async :: "string option \<Rightarrow> (string \<times> string) list" where
  "headers_async pat =
     [(''User-Agent'', USER_AGENT), (''Accept'', ''application/vnd.github+json'')] @
     (case pat of
        None \<Rightarrow> []
      | Some t \<Rightarrow> if t \<noteq> [] then [(''Authorization'', ''Bearer '' @ t)] else [])"

definition make_github_request_request ::
    "string option \<Rightarrow> string \<Rightarrow> string \<Rightarrow> json option \<Rightarrow> request" where
  "make_github_request_request pat meth endpoint json =
     \<lparr>http_method = meth, url = GITHUB_API_BASE @ endpoint, headers = headers_async pat,
      json_body = json\<rparr>"

text \<open>
  The helper returns \<^verbatim>\<open>response.json()\<close>, or \<^verbatim>\<open>None\<close> under \<^verbatim>\<open>except Exception\<close>.
  Python's \<^verbatim>\<open>None\<close> is \<open>JNull\<close>: the helper's caller cannot tell a caught exception
  from a body that decodes to \<^verbatim>\<open>null\<close>.
\<close>

definition make_github_request ::
    "string option \<Rightarrow> network \<Rightarrow> string \<Rightarrow> string \<Rightarrow> json option \<Rightarrow> json" where
  "make_github_request pat net meth endpoint json =
     (case net (make_github_request_request pat meth endpoint json) of
        Raised e \<Rightarrow> JNull
      | Replied b \<Rightarrow> (case response_json b of Inl e \<Rightarrow> JNull | Inr data \<Rightarrow> data))"

definition github_user_info :: "string option \<Rightarrow> network \<Rightarrow> string \<Rightarrow> pyexc + string" where
  "github_user_info pat net username =
     (let data = make_github_request pat net ''GET'' (''/users/'' @ username) None in
      if \<not> truthy data then Inr ''Error fetching user info.''
      else format_dict (\<lambda>d. strip (user_info_text d)) data)"

definition create_repository_async_payload :: "string \<Rightarrow> string \<Rightarrow> bool \<Rightarrow> json" where
  "create_repository_async_payload name description private =
     JObj [(''name'', JStr name), (''description'', JStr description),
           (''private'', JBool private)]"

definition create_repository_async ::
    "string option \<Rightarrow> network \<Rightarrow> string \<Rightarrow> string \<Rightarrow> bool \<Rightarrow> pyexc + string" where
  "create_repository_async pat net name description private =
     (let payload = create_repository_async_payload name description private;
          data = make_github_request pat net ''POST'' ''/user/repos'' (Some payload) in
      if \<not> truthy data then Inr ''Error creating repository.''
      else format_dict (\<lambda>d. strip (repo_created_text d)) data)"

definition delete_repository_async ::
    "string option \<Rightarrow> network \<Rightarrow> string \<Rightarrow> string \<Rightarrow> pyexc + string" where
  "delete_repository_async pat net owner repo =
     (let data = make_github_request pat net ''DELETE'' (''/repos/'' @ owner @ ''/'' @ repo) None in
      if data = JNull then Inr (deleted_text owner repo)
      else Inr ''Error deleting repository.'')"

definition create_pull_request_async ::
    "string option \<Rightarrow> network \<Rightarrow> string \<Rightarrow> string \<Rightarrow> string \<Rightarrow> string \<Rightarrow> string \<Rightarrow> string
      \<Rightarrow> pyexc + string" where
  "create_pull_request_async pat net owner repo title head base body =
     (let payload = JObj [(''title'', JStr title), (''head'', JStr head),
                          (''base'', JStr base), (''body'', JStr body)];
          data = make_github_request pat net ''POST''
                   (''/repos/'' @ owner @ ''/'' @ repo @ ''/pulls'') (Some payload) in
      if \<not> truthy data then Inr ''Error creating pull request.''
      else format_dict (\<lambda>d. strip (pr_created_text d)) data)"

text \<open>\<^verbatim>\<open>payload = {"commit_message": commit_message} if commit_message else {}\<close>.\<close>

definition merge_payload_async :: "string \<Rightarrow> (string \<times> json) list" where
  "merge_payload_async commit_message =
     (if commit_message \<noteq> [] then [(''commit_message'', JStr commit_message)] else [])"

definition merge_pull_request_async_endpoint :: "string \<Rightarrow> string \<Rightarrow> int \<Rightarrow> string" where
  "merge_pull_request_async_endpoint owner repo pull_number =
     ''/repos/'' @ owner @ ''/'' @ repo @ ''/pulls/'' @ str_int pull_number @ ''/merge''"

definition merge_pull_request_async ::
    "string option \<Rightarrow> network \<Rightarrow> string \<Rightarrow> string \<Rightarrow> int \<Rightarrow> string \<Rightarrow> pyexc + string" where
  "merge_pull_request_async pat net owner repo pull_number commit_message =
     (let payload = JObj (merge_payload_async commit_message);
          data = make_github_request pat net ''PUT''
                   (merge_pull_request_async_endpoint owner repo pull_number) (Some payload) in
      if \<not> truthy data then Inr ''Error merging pull request.''
      else format_dict (\<lambda>d. strip (pr_merged_text pull_number d)) data)"

definition list_repositories_async_endpoint :: "string \<Rightarrow> string" where
  "list_repositories_async_endpoint username =
     (if username \<noteq> [] then ''/users/'' @ username @ ''/repos'' else ''/user/repos'')"

definition list_repositories_async :: "string option \<Rightarrow> network \<Rightarrow> string \<Rightarrow> pyexc + string" where
  "list_repositories_async pat net username =
     (let repos = make_github_request pat net ''GET'' (list_repositories_async_endpoint username) None in
      if \<not> truthy repos then Inr ''No repositories found or error occurred.''
      else repo_listing repos)"

section \<open>Tool calls\<close>

text \<open>
  Both files register the same seven tools with \<^verbatim>\<open>@mcp.tool\<close>. A tool call names one
  of them and gives its arguments; \<open>call_sync\<close> and \<open>call_async\<close> run the function a
  call names, in the one file and in the other. The result is the string the function
  returns (\<open>Inr\<close>) or the exception that leaves it (\<open>Inl\<close>).
\<close>

datatype tool_call =
    UserInfo string
  | CreateRepository string string bool
  | DeleteRepository string string
  | CreatePullRequest string string string string string string
  | MergePullRequest string string int string
  | ListRepositories string
  | HelloWorld string

fun call_sync :: "string option \<Rightarrow> network \<Rightarrow> tool_call \<Rightarrow> pyexc + string" where
  "call_sync pat net (UserInfo username) = get_user_info pat net username"
| "call_sync pat net (CreateRepository name description private) =
     create_repository_sync pat net name description private"
| "call_sync pat net (DeleteRepository owner repo) = delete_repository_sync pat net owner repo"
| "call_sync pat net (CreatePullRequest owner repo title head base body) =
     create_pull_request_sync pat net owner repo title head base body"
| "call_sync pat net (MergePullRequest owner repo pull_number commit_message) =
     merge_pull_request_sync pat net owner repo pull_number commit_message"
| "call_sync pat net (ListRepositories username) = list_repositories_sync pat net username"
| "call_sync pat net (HelloWorld name) = Inr (hello_world name)"

fun call_async :: "string option \<Rightarrow> network \<Rightarrow> tool_call \<Rightarrow> pyexc + string" where
  "call_async pat net (UserInfo username) = github_user_info pat net username"
| "call_async pat net (CreateRepository name description private) =
     create_repository_async pat net name description private"
| "call_async pat net (DeleteRepository owner repo) = delete_repository_async pat net owner repo"
| "call_async pat net (CreatePullRequest owner repo title head base body) =
     create_pull_request_async pat net owner repo title head base body"
| "call_async pat net (MergePullRequest owner repo pull_number commit_message) =
     merge_pull_request_async pat net owner repo pull_number commit_message"
| "call_async pat net (ListRepositories username) = list_repositories_async pat net username"
| "call_async pat net (HelloWorld name) = Inr (hello_world name)"

section \<open>Notions used in the statements\<close>

text \<open>
  How a field of the answer appears in the output: the \<^verbatim>\<open>str\<close> of the value bound to
  the key, or the given placeholder text when the object has no such key.
\<close>

definition shown :: "(string \<times> json) list \<Rightarrow> string \<Rightarrow> string \<Rightarrow> string" where
  "shown d key placeholder = (case map_of d key of None \<Rightarrow> placeholder | Some v \<Rightarrow> py_str v)"

text \<open>
  The summary of \<^verbatim>\<open>get_user_info\<close> as the specification describes it: one entry for each
  of name, login, bio, public repositories, followers, following, location, company and
  creation date, each shown with a placeholder when the object lacks it. The text is
  stripped, so blanks at the very end of the creation date are not part of it.
\<close>

definition user_summary :: "(string \<times> json) list \<Rightarrow> string" where
  "user_summary d =
     ''User: '' @ shown d ''name'' ''N/A'' @ '' (@'' @ shown d ''login'' ''None'' @ '')'' @
     [NL] @ ''Bio: '' @ shown d ''bio'' ''N/A'' @
     [NL] @ ''Public Repos: '' @ shown d ''public_repos'' ''0'' @
     [NL] @ ''Followers: '' @ shown d ''followers'' ''0'' @
     [NL] @ ''Following: '' @ shown d ''following'' ''0'' @
     [NL] @ ''Location: '' @ shown d ''location'' ''N/A'' @
     [NL] @ ''Company: '' @ shown d ''company'' ''N/A'' @
     [NL] @ ''Created:'' @ rstrip ('' '' @ shown d ''created_at'' ''N/A'')"

text \<open>
  The tools that send a request (all but \<^verbatim>\<open>hello_world\<close>), and among them the four that
  read a JSON object from the answer.
\<close>

fun makes_request :: "tool_call \<Rightarrow> bool" where
  "makes_request (HelloWorld name) = False"
| "makes_request call = True"

fun reads_object :: "tool_call \<Rightarrow> bool" where
  "reads_object (UserInfo username) = True"
| "reads_object (CreateRepository name description private) = True"
| "reads_object (CreatePullRequest owner repo title head base body) = True"
| "reads_object (MergePullRequest owner repo pull_number commit_message) = True"
| "reads_object call = False"

text \<open>
  The outcomes of the remote call that a tool turns into a string. \<open>listable\<close> is the shape
  \<^verbatim>\<open>list_repositories\<close> can walk: an array whose first ten elements are objects, or a
  false value. \<open>returns_string\<close> says that a call returned and did not raise.
\<close>

fun is_obj :: "json \<Rightarrow> bool" where
  "is_obj (JObj d) = True"
| "is_obj v = False"

fun is_request_exception :: "pyexc \<Rightarrow> bool" where
  "is_request_exception (RequestException m) = True"
| "is_request_exception e = False"

fun listable :: "json \<Rightarrow> bool" where
  "listable (JArr xs) = list_all is_obj (take 10 xs)"
| "listable v = (\<not> truthy v)"

fun absorbed_sync :: "tool_call \<Rightarrow> remote \<Rightarrow> bool" where
  "absorbed_sync (HelloWorld name) r = True"
| "absorbed_sync call (Raised e) = is_request_exception e"
| "absorbed_sync (DeleteRepository owner repo) (Replied b) = True"
| "absorbed_sync call (Replied (Undecodable e)) = is_request_exception e"
| "absorbed_sync (ListRepositories username) (Replied (Decoded j)) = listable j"
| "absorbed_sync call (Replied (Decoded j)) = is_obj j"

fun absorbed_async :: "tool_call \<Rightarrow> remote \<Rightarrow> bool" where
  "absorbed_async (HelloWorld name) r = True"
| "absorbed_async (DeleteRepository owner repo) r = True"
| "absorbed_async (ListRepositories username) (Replied (Decoded j)) = listable j"
| "absorbed_async call (Replied (Decoded j)) = (if truthy j then is_obj j else True)"
| "absorbed_async call r = True"

definition returns_string :: "pyexc + string \<Rightarrow> bool" where
  "returns_string result = (case result of Inl e \<Rightarrow> False | Inr s \<Rightarrow> True)"

section \<open>Stripping the templates\<close>

lemma isspace_NL [simp]: "isspace NL"
  by (simp add: isspace_def)

lemma isspace_blank [simp]: "isspace (CHR '' '')"
  by (simp add: isspace_def)

lemma rstrip_keep: "\<not> isspace b \<Longrightarrow> rstrip (s @ b # t) = s @ b # rstrip t"
  by (simp add: rstrip_def dropWhile_append)

lemma rstrip_spaces: "\<forall>c\<in>set ws. isspace c \<Longrightarrow> rstrip (s @ ws) = rstrip s"
  by (simp add: rstrip_def dropWhile_append)

lemma strip_frame:
  assumes "\<not> isspace a" and "\<not> isspace b" and "\<forall>c\<in>set ws. isspace c"
  shows "strip (NL # a # p @ b # t @ NL # ws) = a # p @ b # rstrip t"
proof -
  have "lstrip (NL # a # p @ b # t @ NL # ws) = a # p @ b # t @ NL # ws"
    using assms(1) by (simp add: lstrip_def)
  moreover have "rstrip ((a # p) @ b # (t @ NL # ws)) = (a # p) @ b # rstrip (t @ NL # ws)"
    using assms(2) by (rule rstrip_keep)
  moreover have "rstrip (t @ NL # ws) = rstrip t"
    using assms(3) by (intro rstrip_spaces) simp
  ultimately show ?thesis by (simp add: strip_def)
qed

lemma str_int_0: "str_int 0 = ''0''"
  by (simp add: str_int_def dec_digits.simps)

lemma shown_get_str: "py_str (dict_get d k (JStr p)) = shown d k p"
  by (simp add: dict_get_def shown_def split: option.splits)

lemma shown_get_None: "py_str (dict_get d k JNull) = shown d k ''None''"
  by (simp add: dict_get_def shown_def split: option.splits)

lemma shown_get_0: "py_str (dict_get d k (JInt 0)) = shown d k ''0''"
  by (simp add: dict_get_def shown_def str_int_0 split: option.splits)

lemma shown_get_False: "py_str (dict_get d k (JBool False)) = shown d k ''False''"
  by (simp add: dict_get_def shown_def str_bool_def split: option.splits)

lemmas shown_get = shown_get_str shown_get_None shown_get_0 shown_get_False

lemma strip_user_info_text:
  assumes "\<forall>c\<in>set ws. isspace c"
  shows "strip (user_info_text d @ ws) =
     ''User: '' @ shown d ''name'' ''N/A'' @ '' (@'' @ shown d ''login'' ''None'' @ '')'' @
     [NL] @ ''Bio: '' @ shown d ''bio'' ''N/A'' @
     [NL] @ ''Public Repos: '' @ shown d ''public_repos'' ''0'' @
     [NL] @ ''Followers: '' @ shown d ''followers'' ''0'' @
     [NL] @ ''Following: '' @ shown d ''following'' ''0'' @
     [NL] @ ''Location: '' @ shown d ''location'' ''N/A'' @
     [NL] @ ''Company: '' @ shown d ''company'' ''N/A'' @
     [NL] @ ''Created:'' @ rstrip ('' '' @ shown d ''created_at'' ''N/A'')"
proof -
  define p where "p = ''ser: '' @ shown d ''name'' ''N/A'' @ '' (@'' @ shown d ''login'' ''None'' @ '')'' @
     [NL] @ ''Bio: '' @ shown d ''bio'' ''N/A'' @
     [NL] @ ''Public Repos: '' @ shown d ''public_repos'' ''0'' @
     [NL] @ ''Followers: '' @ shown d ''followers'' ''0'' @
     [NL] @ ''Following: '' @ shown d ''following'' ''0'' @
     [NL] @ ''Location: '' @ shown d ''location'' ''N/A'' @
     [NL] @ ''Company: '' @ shown d ''company'' ''N/A'' @
     [NL] @ ''Created''"
  define t where "t = '' '' @ shown d ''created_at'' ''N/A''"
  have "user_info_text d @ ws = NL # CHR ''U'' # p @ CHR '':'' # t @ NL # ws"
    by (simp add: user_info_text_def shown_get p_def t_def)
  moreover have "strip (NL # CHR ''U'' # p @ CHR '':'' # t @ NL # ws) = CHR ''U'' # p @ CHR '':'' # rstrip t"
    using assms by (intro strip_frame) (simp_all add: isspace_def)
  ultimately show ?thesis by (simp add: p_def t_def)
qed

lemma strip_repo_created_text:
  assumes "\<forall>c\<in>set ws. isspace c"
  shows "strip (repo_created_text d @ ws) =
     ''Repository created successfully!'' @
     [NL] @ ''Name: '' @ shown d ''full_name'' ''None'' @
     [NL] @ ''URL: '' @ shown d ''html_url'' ''None'' @
     [NL] @ ''Description: '' @ shown d ''description'' ''N/A'' @
     [NL] @ ''Private:'' @ rstrip ('' '' @ shown d ''private'' ''False'')"
proof -
  define p where "p = ''epository created successfully!'' @
     [NL] @ ''Name: '' @ shown d ''full_name'' ''None'' @
     [NL] @ ''URL: '' @ shown d ''html_url'' ''None'' @
     [NL] @ ''Description: '' @ shown d ''description'' ''N/A'' @
     [NL] @ ''Private''"
  define t where "t = '' '' @ shown d ''private'' ''False''"
  have "repo_created_text d @ ws = NL # CHR ''R'' # p @ CHR '':'' # t @ NL # ws"
    by (simp add: repo_created_text_def shown_get p_def t_def)
  moreover have "strip (NL # CHR ''R'' # p @ CHR '':'' # t @ NL # ws) = CHR ''R'' # p @ CHR '':'' # rstrip t"
    using assms by (intro strip_frame) (simp_all add: isspace_def)
  ultimately show ?thesis by (simp add: p_def t_def)
qed

lemma strip_pr_created_text:
  assumes "\<forall>c\<in>set ws. isspace c"
  shows "strip (pr_created_text d @ ws) =
     ''Pull Request created successfully!'' @
     [NL] @ ''Title: '' @ shown d ''title'' ''None'' @
     [NL] @ ''PR #: '' @ shown d ''number'' ''None'' @
     [NL] @ ''URL: '' @ shown d ''html_url'' ''None'' @
     [NL] @ ''State:'' @ rstrip ('' '' @ shown d ''state'' ''None'')"
proof -
  define p where "p = ''ull Request created successfully!'' @
     [NL] @ ''Title: '' @ shown d ''title'' ''None'' @
     [NL] @ ''PR #: '' @ shown d ''number'' ''None'' @
     [NL] @ ''URL: '' @ shown d ''html_url'' ''None'' @
     [NL] @ ''State''"
  define t where "t = '' '' @ shown d ''state'' ''None''"
  have "pr_created_text d @ ws = NL # CHR ''P'' # p @ CHR '':'' # t @ NL # ws"
    by (simp add: pr_created_text_def shown_get p_def t_def)
  moreover have "strip (NL # CHR ''P'' # p @ CHR '':'' # t @ NL # ws) = CHR ''P'' # p @ CHR '':'' # rstrip t"
    using assms by (intro strip_frame) (simp_all add: isspace_def)
  ultimately show ?thesis by (simp add: p_def t_def)
qed

lemma strip_pr_merged_text:
  assumes "\<forall>c\<in>set ws. isspace c"
  shows "strip (pr_merged_text n d @ ws) =
     ''Pull Request #'' @ str_int n @ '' merged successfully!'' @
     [NL] @ ''Message: '' @ shown d ''message'' ''None'' @
     [NL] @ ''SHA:'' @ rstrip ('' '' @ shown d ''sha'' ''None'')"
proof -
  define p where "p = ''ull Request #'' @ str_int n @ '' merged successfully!'' @
     [NL] @ ''Message: '' @ shown d ''message'' ''None'' @
     [NL] @ ''SHA''"
  define t where "t = '' '' @ shown d ''sha'' ''None''"
  have "pr_merged_text n d @ ws = NL # CHR ''P'' # p @ CHR '':'' # t @ NL # ws"
    by (simp add: pr_merged_text_def shown_get p_def t_def)
  moreover have "strip (NL # CHR ''P'' # p @ CHR '':'' # t @ NL # ws) = CHR ''P'' # p @ CHR '':'' # rstrip t"
    using assms by (intro strip_frame) (simp_all add: isspace_def)
  ultimately show ?thesis by (simp add: p_def t_def)
qed

lemma blanks8: "\<forall>c\<in>set ''        ''. isspace c"
  by simp

lemma no_blanks: "\<forall>c\<in>set ([]::string). isspace c"
  by simp

lemma strip_heads:
  assumes "\<forall>c\<in>set ws. isspace c"
  shows "\<exists>t. strip (user_info_text d @ ws) = CHR ''U'' # t"
    and "\<exists>t. strip (repo_created_text d @ ws) = CHR ''R'' # t"
    and "\<exists>t. strip (pr_created_text d @ ws) = CHR ''P'' # t"
    and "\<exists>t. strip (pr_merged_text n d @ ws) = CHR ''P'' # t"
  using assms
  by (simp_all add: strip_user_info_text strip_repo_created_text strip_pr_created_text
      strip_pr_merged_text)

section \<open>What each function returns for each outcome\<close>

lemma sync_try:
  "except_RequestException msg (fetch_json r (format_dict f)) =
     (case r of
        Raised e \<Rightarrow> (case e of RequestException m \<Rightarrow> Inr (msg @ m) | _ \<Rightarrow> Inl e)
      | Replied b \<Rightarrow>
          (case b of
             Undecodable e \<Rightarrow> (case e of RequestException m \<Rightarrow> Inr (msg @ m) | _ \<Rightarrow> Inl e)
           | Decoded j \<Rightarrow> (case j of JObj d \<Rightarrow> Inr (f d) | _ \<Rightarrow> Inl AttributeError)))"
  by (simp add: except_RequestException_def fetch_json_def response_json_def format_dict_def
      split: remote.split body.split pyexc.split json.split)

lemma async_helper:
  "make_github_request pat (\<lambda>_. r) meth endpoint js =
     (case r of Raised e \<Rightarrow> JNull | Replied b \<Rightarrow> (case b of Undecodable e \<Rightarrow> JNull | Decoded j \<Rightarrow> j))"
  by (simp add: make_github_request_def response_json_def split: remote.split body.split)

lemma format_dict_head:
  assumes "\<And>d. \<exists>t. f d = c # t" and "format_dict f j = Inr s"
  shows "\<exists>t. s = c # t"
  using assms by (cases j) (auto simp: format_dict_def)

lemma sync_try_head:
  assumes "\<And>d. \<exists>t. f d = c # t"
    and "except_RequestException msg (fetch_json (Replied (Decoded j)) (format_dict f)) = Inr s"
  shows "\<exists>t. s = c # t"
  using assms by (cases j) (auto simp: sync_try)

lemma get_user_info_object:
  "get_user_info pat (\<lambda>_. Replied (Decoded (JObj d))) username = Inr (user_summary d)"
  using strip_user_info_text [OF blanks8, of d]
  by (simp add: get_user_info_def sync_try user_summary_def)

lemma github_user_info_object:
  "d \<noteq> [] \<Longrightarrow>
   github_user_info pat (\<lambda>_. Replied (Decoded (JObj d))) username = Inr (user_summary d)"
  using strip_user_info_text [of "[]" d]
  by (simp add: github_user_info_def async_helper format_dict_def user_summary_def)

lemma repo_loop_objects: "repo_loop (map JObj ds) acc = Inr (acc @ map repo_entry ds)"
  by (induction ds arbitrary: acc) simp_all

lemma repo_listing_objects:
  "repo_listing (JArr (map JObj ds)) =
     Inr (''Repositories:'' @ [NL] @ join [NL] (map repo_entry (take 10 ds)) @
          (if 10 < length ds
           then [NL, NL] @ ''(Showing 10 of '' @ str_int (int (length ds)) @ '' repositories)''
           else []))"
  by (simp add: repo_listing_def take_map repo_loop_objects)

lemma repo_listing_head: "repo_listing j = Inr s \<Longrightarrow> \<exists>t. s = ''Repositories:'' @ t"
  by (auto simp: repo_listing_def split: sum.splits if_splits)

lemma slice10_Inl: "slice10 j = Inl e \<Longrightarrow> e = TypeError"
  by (cases j) simp_all

lemma py_len_Inl: "py_len j = Inl e \<Longrightarrow> e = TypeError"
  by (cases j) simp_all

lemma repo_loop_Inl: "repo_loop xs acc = Inl e \<Longrightarrow> e = AttributeError"
proof (induction xs arbitrary: acc)
  case Nil
  then show ?case by simp
next
  case (Cons x xs)
  then show ?case by (cases x) (auto split: sum.splits)
qed

lemma repo_listing_Inl: "repo_listing j = Inl e \<Longrightarrow> e = AttributeError \<or> e = TypeError"
  by (auto simp: repo_listing_def split: sum.splits dest: slice10_Inl py_len_Inl repo_loop_Inl)

lemma list_sync_result:
  "list_repositories_sync pat (\<lambda>_. r) u =
     (case r of
        Raised e \<Rightarrow>
          (case e of RequestException m \<Rightarrow> Inr (''Error listing repositories: '' @ m) | _ \<Rightarrow> Inl e)
      | Replied b \<Rightarrow>
          (case b of
             Undecodable e \<Rightarrow>
               (case e of RequestException m \<Rightarrow> Inr (''Error listing repositories: '' @ m)
                | _ \<Rightarrow> Inl e)
           | Decoded j \<Rightarrow>
               (if \<not> truthy j then Inr ''No repositories found.''
                else case repo_listing j of Inl e \<Rightarrow> Inl e | Inr s \<Rightarrow> Inr s)))"
proof -
  have "except_RequestException msg (repo_listing j) =
        (case repo_listing j of Inl e \<Rightarrow> Inl e | Inr s \<Rightarrow> Inr s)" for msg j
    using repo_listing_Inl [of j]
    by (auto simp: except_RequestException_def split: sum.splits)
  then show ?thesis
    by (simp add: list_repositories_sync_def fetch_json_def response_json_def
        except_RequestException_def split: remote.split body.split pyexc.split)
qed

lemma list_async_result:
  "list_repositories_async pat (\<lambda>_. r) u =
     (case r of
        Raised e \<Rightarrow> Inr ''No repositories found or error occurred.''
      | Replied b \<Rightarrow>
          (case b of
             Undecodable e \<Rightarrow> Inr ''No repositories found or error occurred.''
           | Decoded j \<Rightarrow>
               (if \<not> truthy j then Inr ''No repositories found or error occurred.''
                else repo_listing j)))"
  by (simp add: list_repositories_async_def async_helper split: remote.split body.split)

lemma list_single_sync:
  "list_repositories_sync pat (\<lambda>_. Replied (Decoded (JArr [JObj d]))) username =
     Inr (''Repositories:'' @ [NL] @ ''- '' @ shown d ''full_name'' ''None'' @ '': '' @
          shown d ''description'' ''No description'' @ '' ('' @ shown d ''html_url'' ''None'' @ '')'')"
  using repo_listing_objects [of "[d]"]
  by (simp add: list_sync_result repo_entry_def shown_get)

lemma list_single_async:
  "list_repositories_async pat (\<lambda>_. Replied (Decoded (JArr [JObj d]))) username =
     Inr (''Repositories:'' @ [NL] @ ''- '' @ shown d ''full_name'' ''None'' @ '': '' @
          shown d ''description'' ''No description'' @ '' ('' @ shown d ''html_url'' ''None'' @ '')'')"
  using repo_listing_objects [of "[d]"]
  by (simp add: list_async_result repo_entry_def shown_get)



section \<open>When a call returns a string\<close>

lemma repo_loop_returns:
  "returns_string (case repo_loop xs acc of Inl e \<Rightarrow> Inl e | Inr l \<Rightarrow> Inr (f l)) = list_all is_obj xs"
proof (induction xs arbitrary: acc)
  case Nil
  then show ?case by (simp add: returns_string_def)
next
  case (Cons x xs)
  then show ?case by (cases x) (simp_all add: returns_string_def)
qed

lemma repo_listing_returns: "truthy j \<Longrightarrow> returns_string (repo_listing j) = listable j"
proof (cases j)
  case (JArr xs)
  have "repo_listing (JArr xs) =
     (case repo_loop (take 10 xs) [] of Inl e \<Rightarrow> Inl e
      | Inr l \<Rightarrow> Inr (''Repositories:'' @ [NL] @ join [NL] l @
           (if length xs > 10
            then [NL, NL] @ ''(Showing 10 of '' @ str_int (int (length xs)) @ '' repositories)''
            else [])))"
    by (simp add: repo_listing_def split: sum.splits)
  then show ?thesis using JArr repo_loop_returns [where xs = "take 10 xs" and acc = "[]"] by simp
next
  case (JStr s)
  assume "truthy j"
  then obtain c cs where "s = c # cs" using JStr by (cases s) auto
  then show ?thesis using JStr by (simp add: repo_listing_def returns_string_def)
qed (simp_all add: repo_listing_def returns_string_def)

lemma sync_try_returns:
  "returns_string (except_RequestException msg (fetch_json r (format_dict f))) =
     (case r of
        Raised e \<Rightarrow> is_request_exception e
      | Replied b \<Rightarrow> (case b of Undecodable e \<Rightarrow> is_request_exception e | Decoded j \<Rightarrow> is_obj j))"
  by (simp add: sync_try returns_string_def split: remote.split body.split pyexc.split json.split)

lemma list_sync_returns:
  "returns_string (list_repositories_sync pat (\<lambda>_. r) u) =
     (case r of
        Raised e \<Rightarrow> is_request_exception e
      | Replied b \<Rightarrow> (case b of Undecodable e \<Rightarrow> is_request_exception e | Decoded j \<Rightarrow> listable j))"
proof -
  have f: "\<not> truthy j \<Longrightarrow> listable j" for j by (cases j) simp_all
  have t: "truthy j \<Longrightarrow>
      returns_string (case repo_listing j of Inl e \<Rightarrow> Inl e | Inr s \<Rightarrow> Inr s) = listable j" for j
    using repo_listing_returns [of j] by (simp add: returns_string_def split: sum.splits)
  show ?thesis
    using f t
    by (auto simp: list_sync_result returns_string_def split: remote.split body.split pyexc.split)
qed

lemma absorbed_sync_iff:
  "returns_string (call_sync pat (\<lambda>_. r) call) = absorbed_sync call r"
proof (cases call)
  case (UserInfo x1)
  then show ?thesis
    by (simp add: get_user_info_def sync_try_returns split: remote.split body.split)
next
  case (CreateRepository x21 x22 x23)
  then show ?thesis
    by (simp add: create_repository_sync_def sync_try_returns split: remote.split body.split)
next
  case (DeleteRepository x31 x32)
  then show ?thesis
    by (simp add: delete_repository_sync_def except_RequestException_def returns_string_def
        split: remote.split pyexc.split)
next
  case (CreatePullRequest x41 x42 x43 x44 x45 x46)
  then show ?thesis
    by (simp add: create_pull_request_sync_def sync_try_returns split: remote.split body.split)
next
  case (MergePullRequest x51 x52 x53 x54)
  then show ?thesis
    by (simp add: merge_pull_request_sync_def sync_try_returns split: remote.split body.split)
next
  case (ListRepositories x6)
  then show ?thesis
    by (simp add: list_sync_returns split: remote.split body.split)
next
  case (HelloWorld x7)
  then show ?thesis by (simp add: returns_string_def)
qed

lemma async_object_returns:
  "returns_string (if \<not> truthy j then Inr msg else format_dict f j) =
     (if truthy j then is_obj j else True)"
  by (cases j) (simp_all add: format_dict_def returns_string_def)

lemma list_async_returns:
  "returns_string (list_repositories_async pat (\<lambda>_. r) u) =
     (case r of
        Raised e \<Rightarrow> True
      | Replied b \<Rightarrow> (case b of Undecodable e \<Rightarrow> True | Decoded j \<Rightarrow> listable j))"
proof -
  have f: "\<not> truthy j \<Longrightarrow> listable j" for j by (cases j) simp_all
  show ?thesis
    using f repo_listing_returns
    by (auto simp: list_async_result returns_string_def split: remote.split body.split)
qed

lemma absorbed_async_iff:
  "returns_string (call_async pat (\<lambda>_. r) call) = absorbed_async call r"
proof (cases call)
  case (UserInfo x1)
  then show ?thesis
    using async_object_returns
    by (simp add: github_user_info_def async_helper returns_string_def
        split: remote.split body.split)
next
  case (CreateRepository x21 x22 x23)
  then show ?thesis
    using async_object_returns
    by (simp add: create_repository_async_def async_helper returns_string_def
        split: remote.split body.split)
next
  case (DeleteRepository x31 x32)
  then show ?thesis
    by (simp add: delete_repository_async_def returns_string_def)
next
  case (CreatePullRequest x41 x42 x43 x44 x45 x46)
  then show ?thesis
    using async_object_returns
    by (simp add: create_pull_request_async_def async_helper returns_string_def
        split: remote.split body.split)
next
  case (MergePullRequest x51 x52 x53 x54)
  then show ?thesis
    using async_object_returns
    by (simp add: merge_pull_request_async_def async_helper returns_string_def
        split: remote.split body.split)
next
  case (ListRepositories x6)
  then show ?thesis
    by (simp add: list_async_returns split: remote.split body.split)
next
  case (HelloWorld x7)
  then show ?thesis by (simp add: returns_string_def)
qed

lemma sync_success_head:
  assumes "call_sync pat (\<lambda>_. Replied (Decoded j)) call = Inr s"
  shows "\<exists>c t. s = c # t \<and> c \<noteq> CHR ''E''"
proof (cases call)
  case (UserInfo x1)
  then show ?thesis
    using assms sync_try_head [OF strip_heads(1) [OF blanks8]]
    by (fastforce simp: get_user_info_def)
next
  case (CreateRepository x21 x22 x23)
  then show ?thesis
    using assms sync_try_head [OF strip_heads(2) [OF blanks8]]
    by (fastforce simp: create_repository_sync_def)
next
  case (DeleteRepository x31 x32)
  then show ?thesis
    using assms by (auto simp: delete_repository_sync_def except_RequestException_def deleted_text_def)
next
  case (CreatePullRequest x41 x42 x43 x44 x45 x46)
  then show ?thesis
    using assms sync_try_head [OF strip_heads(3) [OF blanks8]]
    by (fastforce simp: create_pull_request_sync_def)
next
  case (MergePullRequest x51 x52 x53 x54)
  then show ?thesis
    using assms sync_try_head [OF strip_heads(4) [OF blanks8]]
    by (fastforce simp: merge_pull_request_sync_def)
next
  case (ListRepositories x6)
  then show ?thesis
    using assms repo_listing_head [of j]
    by (auto simp: list_sync_result split: if_splits sum.splits)
next
  case (HelloWorld x7)
  then show ?thesis using assms by (auto simp: hello_world_def)
qed

lemma sync_failure_string:
  assumes "makes_request call"
  shows "\<exists>t. call_sync pat (\<lambda>_. Raised (RequestException m)) call = Inr (''Error'' @ t)"
  using assms
  by (cases call)
     (simp_all add: get_user_info_def create_repository_sync_def delete_repository_sync_def
        create_pull_request_sync_def merge_pull_request_sync_def list_sync_result fetch_json_def
        except_RequestException_def)

lemma async_failure_string:
  assumes "reads_object call"
  shows "\<exists>t. call_async pat (\<lambda>_. Raised e) call = Inr (''Error'' @ t)"
  using assms
  by (cases call)
     (simp_all add: github_user_info_def create_repository_async_def
        create_pull_request_async_def merge_pull_request_async_def async_helper)

lemma async_success_head:
  assumes "reads_object call" and "truthy j"
    and "call_async pat (\<lambda>_. Replied (Decoded j)) call = Inr s"
  shows "\<exists>c t. s = c # t \<and> c \<noteq> CHR ''E''"
proof (cases call)
  case (UserInfo x1)
  then show ?thesis
    using assms format_dict_head [OF strip_heads(1) [OF no_blanks], of _ j s]
    by (fastforce simp: github_user_info_def async_helper)
next
  case (CreateRepository x21 x22 x23)
  then show ?thesis
    using assms format_dict_head [OF strip_heads(2) [OF no_blanks], of _ j s]
    by (fastforce simp: create_repository_async_def async_helper)
next
  case (CreatePullRequest x41 x42 x43 x44 x45 x46)
  then show ?thesis
    using assms format_dict_head [OF strip_heads(3) [OF no_blanks], of _ j s]
    by (fastforce simp: create_pull_request_async_def async_helper)
next
  case (MergePullRequest x51 x52 x53 x54)
  then show ?thesis
    using assms format_dict_head [OF strip_heads(4) [OF no_blanks], of _ _ j s]
    by (fastforce simp: merge_pull_request_async_def async_helper)
qed (use assms in simp_all)

section \<open>One request for each call\<close>

text \<open>
  Every function consults the network once, at the request it builds. Its result is
  therefore the result against the network that gives that one answer to every request,
  which is the form of network the statements below use.
\<close>

lemma get_user_info_one_request:
  "get_user_info pat net username =
     get_user_info pat (\<lambda>_. net (get_user_info_request pat username)) username"
  by (simp add: get_user_info_def)


lemma delete_repository_sync_one_request:
  "delete_repository_sync pat net owner repo =
     delete_repository_sync pat (\<lambda>_. net (delete_repository_sync_request pat owner repo))
       owner repo"
  by (simp add: delete_repository_sync_def)

lemma create_pull_request_sync_one_request:
  "create_pull_request_sync pat net owner repo title head base body =
     create_pull_request_sync pat
       (\<lambda>_. net (create_pull_request_sync_request pat owner repo title head base body))
       owner repo title head base body"
  by (simp add: create_pull_request_sync_def)

lemma list_repositories_sync_one_request:
  "list_repositories_sync pat net username =
     list_repositories_sync pat (\<lambda>_. net (list_repositories_sync_request pat username))
       username"
  by (simp add: list_repositories_sync_def)

lemma make_github_request_one_request:
  "make_github_request pat net meth endpoint js =
     make_github_request pat (\<lambda>_. net (make_github_request_request pat meth endpoint js))
       meth endpoint js"
  by (simp add: make_github_request_def)

lemma github_user_info_one_request:
  "github_user_info pat net username =
     github_user_info pat
       (\<lambda>_. net (make_github_request_request pat ''GET'' (''/users/'' @ username) None))
       username"
  by (simp add: github_user_info_def make_github_request_def)

lemma delete_repository_async_one_request:
  "delete_repository_async pat net owner repo =
     delete_repository_async pat
       (\<lambda>_. net (make_github_request_request pat ''DELETE''
                    (''/repos/'' @ owner @ ''/'' @ repo) None))
       owner repo"
  by (simp add: delete_repository_async_def make_github_request_def)

lemma create_pull_request_async_one_request:
  "create_pull_request_async pat net owner repo title head base body =
     create_pull_request_async pat
       (\<lambda>_. net (make_github_request_request pat ''POST''
                    (''/repos/'' @ owner @ ''/'' @ repo @ ''/pulls'')
                    (Some (JObj [(''title'', JStr title), (''head'', JStr head),
                                 (''base'', JStr base), (''body'', JStr body)]))))
       owner repo title head base body"
  by (simp add: create_pull_request_async_def make_github_request_def)

lemma list_repositories_async_one_request:
  "list_repositories_async pat net username =
     list_repositories_async pat
       (\<lambda>_. net (make_github_request_request pat ''GET''
                    (list_repositories_async_endpoint username) None))
       username"
  by (simp add: list_repositories_async_def make_github_request_def)

section \<open>The claims\<close>

subsection \<open>C1: \<^verbatim>\<open>delete_repository\<close>\<close>

text \<open>
  Claim C1: when the remote DELETE call fails, \<^verbatim>\<open>delete_repository\<close> returns a formatted
  error string, and when it succeeds a confirmation naming owner/repo, in both files.

  The asynchronous file does not do this. Its helper returns \<^verbatim>\<open>None\<close> for every caught
  exception, and \<^verbatim>\<open>delete_repository\<close> reads \<^verbatim>\<open>data is None\<close> as success. The theorem
  runs both files on the same rejected call (a 404 raised by \<^verbatim>\<open>raise_for_status()\<close>): the
  asynchronous one answers with the confirmation, the synchronous one with the error
  string.
\<close>

theorem delete_async_failure_reads_as_success:
  "delete_repository_async None (\<lambda>_. Raised (RequestException ''404 Client Error: Not Found''))
     ''octocat'' ''hello'' = Inr ''Repository octocat/hello was deleted successfully!''
   \<and> delete_repository_sync None (\<lambda>_. Raised (RequestException ''404 Client Error: Not Found''))
     ''octocat'' ''hello'' = Inr ''Error deleting repository: 404 Client Error: Not Found''"
  by (simp add: delete_repository_async_def make_github_request_def deleted_text_def
      delete_repository_sync_def except_RequestException_def)

subsection \<open>C2: the empty listing\<close>

text \<open>
  The asynchronous \<^verbatim>\<open>list_repositories\<close> returns its one sentence both for a failed call and
  for an empty array, so the sentence does not tell the two apart.
\<close>

theorem list_repositories_empty_counterexample:
  "list_repositories_async None (\<lambda>_. Raised (RequestException ''timed out'')) ''octocat'' =
     Inr ''No repositories found or error occurred.''
   \<and> list_repositories_async None (\<lambda>_. Replied (Decoded (JArr []))) ''octocat'' =
     Inr ''No repositories found or error occurred.''"
  by (simp add: list_async_result)

text \<open>
  Claim C2, as amended: in the synchronous file \<^verbatim>\<open>list_repositories\<close> returns
  "No repositories found." if and only if the call succeeded and its decoded body is false
  in Python's sense (for an array body: if and only if the array is empty), and a failed
  call returns "Error listing repositories: " followed by the failure's text. In the
  asynchronous file "No repositories found or error occurred." is returned if and only if
  the call failed, the body could not be decoded, or the decoded body is false.
\<close>

theorem list_repositories_empty_message:
  "(list_repositories_sync pat (\<lambda>_. r) username = Inr ''No repositories found.'') =
     (\<exists>j. r = Replied (Decoded j) \<and> \<not> truthy j)
   \<and> (list_repositories_sync pat (\<lambda>_. Replied (Decoded (JArr xs))) username =
        Inr ''No repositories found.'') = (xs = [])
   \<and> list_repositories_sync pat (\<lambda>_. Raised (RequestException m)) username =
       Inr (''Error listing repositories: '' @ m)
   \<and> (list_repositories_async pat (\<lambda>_. r) username =
        Inr ''No repositories found or error occurred.'') =
     (case r of
        Raised e \<Rightarrow> True
      | Replied b \<Rightarrow> (case b of Undecodable e \<Rightarrow> True | Decoded j \<Rightarrow> \<not> truthy j))"
proof -
  have h: "repo_listing j \<noteq> Inr ''No repositories found.''"
          "repo_listing j \<noteq> Inr ''No repositories found or error occurred.''" for j
    using repo_listing_head [of j] by auto
  have 1: "(list_repositories_sync pat (\<lambda>_. r) u = Inr ''No repositories found.'') =
     (\<exists>j. r = Replied (Decoded j) \<and> \<not> truthy j)" for r u
    using h by (auto simp: list_sync_result split: remote.splits body.splits pyexc.splits sum.splits)
  have 2: "(list_repositories_sync pat (\<lambda>_. Replied (Decoded (JArr xs))) username =
        Inr ''No repositories found.'') = (xs = [])"
    unfolding 1 by simp
  have 3: "list_repositories_sync pat (\<lambda>_. Raised (RequestException m)) username =
       Inr (''Error listing repositories: '' @ m)"
    by (simp add: list_sync_result)
  have 4: "(list_repositories_async pat (\<lambda>_. r) username =
        Inr ''No repositories found or error occurred.'') =
     (case r of
        Raised e \<Rightarrow> True
      | Replied b \<Rightarrow> (case b of Undecodable e \<Rightarrow> True | Decoded j \<Rightarrow> \<not> truthy j))"
    using h by (simp add: list_async_result split: remote.splits body.splits)
  show ?thesis using 1 2 3 4 by blast
qed

theorem list_repositories_empty_message_witness:
  "list_repositories_sync None (\<lambda>_. Replied (Decoded (JArr []))) ''octocat'' =
     Inr ''No repositories found.''
   \<and> list_repositories_sync None (\<lambda>_. Raised (RequestException ''timed out'')) ''octocat'' =
     Inr ''Error listing repositories: timed out''"
  using list_repositories_empty_message [of None "Replied (Decoded (JArr []))" "''octocat''" "[]"
      "''timed out''"]
  by auto

subsection \<open>C3: failure strings\<close>

text \<open>
  In the asynchronous file a failed \<^verbatim>\<open>list_repositories\<close> returns exactly the string it
  returns for a successful call with an empty array, and that string carries no "Error"
  marker.
\<close>

theorem failure_string_counterexample:
  "call_async None (\<lambda>_. Raised (RequestException ''timed out'')) (ListRepositories ''octocat'') =
     call_async None (\<lambda>_. Replied (Decoded (JArr []))) (ListRepositories ''octocat'')
   \<and> call_async None (\<lambda>_. Raised (RequestException ''timed out'')) (ListRepositories ''octocat'') =
     Inr ''No repositories found or error occurred.''"
  by (simp add: list_async_result)

text \<open>
  Claim C3, as amended: a failed remote call makes the tool return a string, and
  \<^item> in the synchronous file, for every tool but \<^verbatim>\<open>hello_world\<close> and every
    \<^verbatim>\<open>RequestException\<close>, the string starts with "Error" and differs from every string
    the tool returns for a response with a decoded body (for \<^verbatim>\<open>delete_repository\<close>: for
    any response at all);
  \<^item> in the asynchronous file, for the four tools that read an object, the string starts
    with "Error" and differs from every string returned for a body that is true in
    Python's sense;
  \<^item> the asynchronous \<^verbatim>\<open>list_repositories\<close> returns
    "No repositories found or error occurred.", which differs from every string it
    returns for a body that is true in Python's sense.
  Nothing is said here about the asynchronous \<^verbatim>\<open>delete_repository\<close>.
\<close>

theorem failure_string_distinguishable:
  "(makes_request call \<longrightarrow>
      (\<exists>s. call_sync pat (\<lambda>_. Raised (RequestException m)) call = Inr s \<and> prefix ''Error'' s
         \<and> (\<forall>j. call_sync pat (\<lambda>_. Replied (Decoded j)) call \<noteq> Inr s)))
   \<and> (\<exists>s. delete_repository_sync pat (\<lambda>_. Raised (RequestException m)) owner repo = Inr s
         \<and> prefix ''Error'' s
         \<and> (\<forall>b. delete_repository_sync pat (\<lambda>_. Replied b) owner repo \<noteq> Inr s))
   \<and> (reads_object call \<longrightarrow>
      (\<exists>s. call_async pat (\<lambda>_. Raised e) call = Inr s \<and> prefix ''Error'' s
         \<and> (\<forall>j. truthy j \<longrightarrow> call_async pat (\<lambda>_. Replied (Decoded j)) call \<noteq> Inr s)))
   \<and> call_async pat (\<lambda>_. Raised e) (ListRepositories username) =
       Inr ''No repositories found or error occurred.''
   \<and> (\<forall>j. truthy j \<longrightarrow>
         call_async pat (\<lambda>_. Replied (Decoded j)) (ListRepositories username) \<noteq>
         Inr ''No repositories found or error occurred.'')"
proof -
  have 1: "makes_request call \<longrightarrow>
      (\<exists>s. call_sync pat (\<lambda>_. Raised (RequestException m)) call = Inr s \<and> prefix ''Error'' s
         \<and> (\<forall>j. call_sync pat (\<lambda>_. Replied (Decoded j)) call \<noteq> Inr s))"
  proof
    assume "makes_request call"
    then obtain t where t: "call_sync pat (\<lambda>_. Raised (RequestException m)) call = Inr (''Error'' @ t)"
      using sync_failure_string by blast
    have "call_sync pat (\<lambda>_. Replied (Decoded j)) call \<noteq> Inr (''Error'' @ t)" for j
      using sync_success_head [of pat j call "''Error'' @ t"] by auto
    then show "\<exists>s. call_sync pat (\<lambda>_. Raised (RequestException m)) call = Inr s \<and> prefix ''Error'' s
         \<and> (\<forall>j. call_sync pat (\<lambda>_. Replied (Decoded j)) call \<noteq> Inr s)"
      using t by auto
  qed
  have 2: "\<exists>s. delete_repository_sync pat (\<lambda>_. Raised (RequestException m)) owner repo = Inr s
         \<and> prefix ''Error'' s
         \<and> (\<forall>b. delete_repository_sync pat (\<lambda>_. Replied b) owner repo \<noteq> Inr s)"
    by (simp add: delete_repository_sync_def except_RequestException_def deleted_text_def)
  have 3: "reads_object call \<longrightarrow>
      (\<exists>s. call_async pat (\<lambda>_. Raised e) call = Inr s \<and> prefix ''Error'' s
         \<and> (\<forall>j. truthy j \<longrightarrow> call_async pat (\<lambda>_. Replied (Decoded j)) call \<noteq> Inr s))"
  proof
    assume r: "reads_object call"
    then obtain t where t: "call_async pat (\<lambda>_. Raised e) call = Inr (''Error'' @ t)"
      using async_failure_string by blast
    have "truthy j \<longrightarrow> call_async pat (\<lambda>_. Replied (Decoded j)) call \<noteq> Inr (''Error'' @ t)" for j
      using async_success_head [OF r, of j pat "''Error'' @ t"] by auto
    then show "\<exists>s. call_async pat (\<lambda>_. Raised e) call = Inr s \<and> prefix ''Error'' s
         \<and> (\<forall>j. truthy j \<longrightarrow> call_async pat (\<lambda>_. Replied (Decoded j)) call \<noteq> Inr s)"
      using t by auto
  qed
  have 4: "call_async pat (\<lambda>_. Raised e) (ListRepositories username) =
       Inr ''No repositories found or error occurred.''"
    by (simp add: list_async_result)
  have 5: "\<forall>j. truthy j \<longrightarrow>
         call_async pat (\<lambda>_. Replied (Decoded j)) (ListRepositories username) \<noteq>
         Inr ''No repositories found or error occurred.''"
    using repo_listing_head by (auto simp: list_async_result)
  show ?thesis using 1 2 3 4 5 by blast
qed

theorem failure_string_distinguishable_witness:
  "call_sync None (\<lambda>_. Raised (RequestException ''timed out'')) (UserInfo ''octocat'') =
     Inr ''Error fetching user info: timed out''
   \<and> (\<forall>j. call_sync None (\<lambda>_. Replied (Decoded j)) (UserInfo ''octocat'') \<noteq>
          Inr ''Error fetching user info: timed out'')
   \<and> call_async None (\<lambda>_. Raised (RequestException ''timed out'')) (UserInfo ''octocat'') =
     Inr ''Error fetching user info.''
   \<and> (\<forall>d. call_async None (\<lambda>_. Replied (Decoded (JObj [(''login'', JStr d)]))) (UserInfo ''octocat'') \<noteq>
          Inr ''Error fetching user info.'')"
proof -
  have s: "call_sync None (\<lambda>_. Raised (RequestException ''timed out'')) (UserInfo ''octocat'') =
     Inr ''Error fetching user info: timed out''"
    by (simp add: get_user_info_def sync_try)
  have a: "call_async None (\<lambda>_. Raised (RequestException ''timed out'')) (UserInfo ''octocat'') =
     Inr ''Error fetching user info.''"
    by (simp add: github_user_info_def async_helper)
  show ?thesis
    using failure_string_distinguishable [of "UserInfo ''octocat''" None "''timed out''" "''o''" "''r''"
        "RequestException ''timed out''" "''''"]
    unfolding s a by auto
qed

subsection \<open>C4: one string for every call\<close>

text \<open>
  A response whose body decodes to something that is not an object makes
  \<^verbatim>\<open>user_data.get\<close> raise \<^verbatim>\<open>AttributeError\<close>. The synchronous file catches only
  \<^verbatim>\<open>requests.RequestException\<close>, and the asynchronous file formats outside of its
  \<^verbatim>\<open>try\<close>, so in both the exception leaves the tool.
\<close>

theorem unexpected_body_counterexample:
  "call_sync None (\<lambda>_. Replied (Decoded (JArr []))) (UserInfo ''octocat'') = Inl AttributeError
   \<and> call_async None (\<lambda>_. Replied (Decoded (JArr [JInt 1]))) (UserInfo ''octocat'') =
       Inl AttributeError"
  by (simp add: get_user_info_def sync_try github_user_info_def async_helper format_dict_def)

text \<open>
  Claim C4, as amended: a call returns a string, and raises nothing, exactly for the
  outcomes described by \<open>absorbed_sync\<close> and \<open>absorbed_async\<close>: \<^verbatim>\<open>hello_world\<close> always;
  in the synchronous file a failure or an undecodable body that is a
  \<^verbatim>\<open>RequestException\<close>, any response for \<^verbatim>\<open>delete_repository\<close>, a decoded object for
  the four tools that read one, and for \<^verbatim>\<open>list_repositories\<close> a false value or an array
  whose first ten elements are objects; in the asynchronous file every failure and every
  undecodable body, anything for \<^verbatim>\<open>delete_repository\<close>, a false value or an object for
  the four tools that read one, and the same shapes as above for \<^verbatim>\<open>list_repositories\<close>.
  For every other outcome an exception leaves the tool.
\<close>

theorem call_returns_string_iff:
  "returns_string (call_sync pat (\<lambda>_. r) call) = absorbed_sync call r
   \<and> returns_string (call_async pat (\<lambda>_. r) call) = absorbed_async call r"
  by (simp add: absorbed_sync_iff absorbed_async_iff)

theorem call_returns_string_iff_witness:
  "returns_string (call_sync None (\<lambda>_. Raised (RequestException ''timed out''))
     (UserInfo ''octocat''))
   \<and> returns_string (call_async None (\<lambda>_. Raised (RequestException ''timed out''))
     (UserInfo ''octocat''))"
  using call_returns_string_iff [of None "Raised (RequestException ''timed out'')"
      "UserInfo ''octocat''"]
  by simp

subsection \<open>C5: at most ten entries\<close>



subsection \<open>C6: the commit message of a merge\<close>


subsection \<open>C7: the user summary\<close>

text \<open>
  In the asynchronous file a successful response whose body is the empty object gets the
  error sentence, not a summary of placeholders: \<^verbatim>\<open>if not data\<close> takes the empty dict
  for a failure.
\<close>

theorem user_info_counterexample:
  "github_user_info None (\<lambda>_. Replied (Decoded (JObj []))) ''octocat'' =
     Inr ''Error fetching user info.''"
  by (simp add: github_user_info_def async_helper)

text \<open>
  Claim C7, as amended: for every successful response whose body is a JSON object (in the
  asynchronous file: a non-empty one), the returned text is \<open>user_summary\<close>: it shows
  name, login, bio, public repository count, followers, following, location, company and
  creation date, and a field the object lacks is shown as its placeholder: "N/A" for
  name, bio, location, company and creation date, "0" for the three counts, and "None"
  for login.
\<close>

theorem user_info_summary_fields:
  "get_user_info pat (\<lambda>_. Replied (Decoded (JObj d))) username = Inr (user_summary d)
   \<and> (d \<noteq> [] \<longrightarrow>
        github_user_info pat (\<lambda>_. Replied (Decoded (JObj d))) username = Inr (user_summary d))
   \<and> (map_of d key = None \<longrightarrow> shown d key placeholder = placeholder)
   \<and> (map_of d ''created_at'' = None \<longrightarrow>
        rstrip ('' '' @ shown d ''created_at'' ''N/A'') = '' N/A'')"
proof -
  have "rstrip '' N/A'' = '' N/A''"
    by (simp add: rstrip_def isspace_def)
  then show ?thesis
    by (simp add: get_user_info_object github_user_info_object shown_def)
qed

theorem user_info_summary_fields_witness:
  "get_user_info None (\<lambda>_. Replied (Decoded (JObj [(''login'', JStr ''octocat'')]))) ''octocat'' =
     Inr (''User: N/A (@octocat)'' @ [NL] @ ''Bio: N/A'' @ [NL] @ ''Public Repos: 0'' @ [NL] @
          ''Followers: 0'' @ [NL] @ ''Following: 0'' @ [NL] @ ''Location: N/A'' @ [NL] @
          ''Company: N/A'' @ [NL] @ ''Created: N/A'')
   \<and> github_user_info None (\<lambda>_. Replied (Decoded (JObj [(''login'', JStr ''octocat'')]))) ''octocat'' =
     Inr (''User: N/A (@octocat)'' @ [NL] @ ''Bio: N/A'' @ [NL] @ ''Public Repos: 0'' @ [NL] @
          ''Followers: 0'' @ [NL] @ ''Following: 0'' @ [NL] @ ''Location: N/A'' @ [NL] @
          ''Company: N/A'' @ [NL] @ ''Created: N/A'')"
  using user_info_summary_fields [of None "[(''login'', JStr ''octocat'')]" "''octocat''"
      "''created_at''" "''N/A''"]
  by (simp add: user_summary_def shown_def)

subsection \<open>C8: the private flag\<close>



subsection \<open>C9: false bodies in the asynchronous file\<close>

text \<open>
  Claim C9: in the asynchronous file, for \<^verbatim>\<open>github_user_info\<close>, \<^verbatim>\<open>create_repository\<close>,
  \<^verbatim>\<open>create_pull_request\<close> and \<^verbatim>\<open>merge_pull_request\<close>, a successful response whose body
  is false in Python's sense (the empty object, for one) gets the tool's error sentence,
  the same string as a failed call.
\<close>

theorem async_falsy_body_reported_as_error:
  assumes "\<not> truthy j"
  shows "github_user_info pat (\<lambda>_. Replied (Decoded j)) username = Inr ''Error fetching user info.''
     \<and> github_user_info pat (\<lambda>_. Raised e) username = Inr ''Error fetching user info.''
     \<and> create_repository_async pat (\<lambda>_. Replied (Decoded j)) name description private =
         Inr ''Error creating repository.''
     \<and> create_repository_async pat (\<lambda>_. Raised e) name description private =
         Inr ''Error creating repository.''
     \<and> create_pull_request_async pat (\<lambda>_. Replied (Decoded j)) owner repo title head base body =
         Inr ''Error creating pull request.''
     \<and> create_pull_request_async pat (\<lambda>_. Raised e) owner repo title head base body =
         Inr ''Error creating pull request.''
     \<and> merge_pull_request_async pat (\<lambda>_. Replied (Decoded j)) owner repo pull_number commit_message =
         Inr ''Error merging pull request.''
     \<and> merge_pull_request_async pat (\<lambda>_. Raised e) owner repo pull_number commit_message =
         Inr ''Error merging pull request.''"
  using assms
  by (simp add: github_user_info_def create_repository_async_def create_pull_request_async_def
      merge_pull_request_async_def async_helper)

theorem async_falsy_body_reported_as_error_witness:
  "github_user_info None (\<lambda>_. Replied (Decoded (JObj []))) ''octocat'' =
     Inr ''Error fetching user info.''
   \<and> github_user_info None (\<lambda>_. Raised (OtherException ''timed out'')) ''octocat'' =
     Inr ''Error fetching user info.''
   \<and> merge_pull_request_async None (\<lambda>_. Replied (Decoded (JObj []))) ''octocat'' ''demo'' 7 '''' =
     Inr ''Error merging pull request.''"
  using async_falsy_body_reported_as_error [of "JObj []" None "''octocat''"
      "OtherException ''timed out''" _ _ _ "''octocat''" "''demo''" _ _ _ _ 7 "''''"]
  by simp

subsection \<open>C10: null fields\<close>

text \<open>
  Claim C10: in both files a field that is present with the value null is rendered as
  the text "None"; the placeholder appears only when the key is missing. This holds for
  every \<^verbatim>\<open>.get\<close> with a default, and is shown on the bio line of the user summary and on
  the description of a listed repository.
\<close>

theorem null_field_rendered_as_None:
  "(map_of d key = Some JNull \<longrightarrow> py_str (dict_get d key dflt) = ''None'')
   \<and> (map_of d key = None \<longrightarrow> py_str (dict_get d key dflt) = py_str dflt)
   \<and> (map_of d ''bio'' = Some JNull \<longrightarrow>
        (\<exists>rest. get_user_info pat (\<lambda>_. Replied (Decoded (JObj d))) username =
           Inr (''User: '' @ shown d ''name'' ''N/A'' @ '' (@'' @ shown d ''login'' ''None'' @ '')'' @
                [NL] @ ''Bio: None'' @ [NL] @ rest))
        \<and> (\<exists>rest. github_user_info pat (\<lambda>_. Replied (Decoded (JObj d))) username =
           Inr (''User: '' @ shown d ''name'' ''N/A'' @ '' (@'' @ shown d ''login'' ''None'' @ '')'' @
                [NL] @ ''Bio: None'' @ [NL] @ rest)))
   \<and> (map_of d ''bio'' = None \<longrightarrow>
        (\<exists>rest. get_user_info pat (\<lambda>_. Replied (Decoded (JObj d))) username =
           Inr (''User: '' @ shown d ''name'' ''N/A'' @ '' (@'' @ shown d ''login'' ''None'' @ '')'' @
                [NL] @ ''Bio: N/A'' @ [NL] @ rest)))
   \<and> (map_of d ''description'' = Some JNull \<longrightarrow>
        list_repositories_sync pat (\<lambda>_. Replied (Decoded (JArr [JObj d]))) username =
          Inr (''Repositories:'' @ [NL] @ ''- '' @ shown d ''full_name'' ''None'' @
               '': None ('' @ shown d ''html_url'' ''None'' @ '')'')
        \<and> list_repositories_async pat (\<lambda>_. Replied (Decoded (JArr [JObj d]))) username =
          Inr (''Repositories:'' @ [NL] @ ''- '' @ shown d ''full_name'' ''None'' @
               '': None ('' @ shown d ''html_url'' ''None'' @ '')''))
   \<and> (map_of d ''description'' = None \<longrightarrow>
        list_repositories_sync pat (\<lambda>_. Replied (Decoded (JArr [JObj d]))) username =
          Inr (''Repositories:'' @ [NL] @ ''- '' @ shown d ''full_name'' ''None'' @
               '': No description ('' @ shown d ''html_url'' ''None'' @ '')'')
        \<and> list_repositories_async pat (\<lambda>_. Replied (Decoded (JArr [JObj d]))) username =
          Inr (''Repositories:'' @ [NL] @ ''- '' @ shown d ''full_name'' ''None'' @
               '': No description ('' @ shown d ''html_url'' ''None'' @ '')''))"
proof -
  have a: "map_of d key = Some JNull \<longrightarrow> py_str (dict_get d key dflt) = ''None''"
    by (simp add: dict_get_def)
  have b: "map_of d key = None \<longrightarrow> py_str (dict_get d key dflt) = py_str dflt"
    by (simp add: dict_get_def)
  have c: "map_of d ''bio'' = Some JNull \<longrightarrow>
        (\<exists>rest. get_user_info pat (\<lambda>_. Replied (Decoded (JObj d))) username =
           Inr (''User: '' @ shown d ''name'' ''N/A'' @ '' (@'' @ shown d ''login'' ''None'' @ '')'' @
                [NL] @ ''Bio: None'' @ [NL] @ rest))
        \<and> (\<exists>rest. github_user_info pat (\<lambda>_. Replied (Decoded (JObj d))) username =
           Inr (''User: '' @ shown d ''name'' ''N/A'' @ '' (@'' @ shown d ''login'' ''None'' @ '')'' @
                [NL] @ ''Bio: None'' @ [NL] @ rest))"
  proof
    assume h: "map_of d ''bio'' = Some JNull"
    then have ne: "d \<noteq> []" by auto
    have s: "shown d ''bio'' ''N/A'' = ''None''" using h by (simp add: shown_def)
    show "(\<exists>rest. get_user_info pat (\<lambda>_. Replied (Decoded (JObj d))) username =
           Inr (''User: '' @ shown d ''name'' ''N/A'' @ '' (@'' @ shown d ''login'' ''None'' @ '')'' @
                [NL] @ ''Bio: None'' @ [NL] @ rest))
        \<and> (\<exists>rest. github_user_info pat (\<lambda>_. Replied (Decoded (JObj d))) username =
           Inr (''User: '' @ shown d ''name'' ''N/A'' @ '' (@'' @ shown d ''login'' ''None'' @ '')'' @
                [NL] @ ''Bio: None'' @ [NL] @ rest))"
      by (simp add: get_user_info_object github_user_info_object [OF ne] user_summary_def s)
  qed
  have d: "map_of d ''bio'' = None \<longrightarrow>
        (\<exists>rest. get_user_info pat (\<lambda>_. Replied (Decoded (JObj d))) username =
           Inr (''User: '' @ shown d ''name'' ''N/A'' @ '' (@'' @ shown d ''login'' ''None'' @ '')'' @
                [NL] @ ''Bio: N/A'' @ [NL] @ rest))"
  proof
    assume h: "map_of d ''bio'' = None"
    have s: "shown d ''bio'' ''N/A'' = ''N/A''" using h by (simp add: shown_def)
    show "\<exists>rest. get_user_info pat (\<lambda>_. Replied (Decoded (JObj d))) username =
           Inr (''User: '' @ shown d ''name'' ''N/A'' @ '' (@'' @ shown d ''login'' ''None'' @ '')'' @
                [NL] @ ''Bio: N/A'' @ [NL] @ rest)"
      by (simp add: get_user_info_object user_summary_def s)
  qed
  have e: "map_of d ''description'' = Some JNull \<longrightarrow>
        list_repositories_sync pat (\<lambda>_. Replied (Decoded (JArr [JObj d]))) username =
          Inr (''Repositories:'' @ [NL] @ ''- '' @ shown d ''full_name'' ''None'' @
               '': None ('' @ shown d ''html_url'' ''None'' @ '')'')
        \<and> list_repositories_async pat (\<lambda>_. Replied (Decoded (JArr [JObj d]))) username =
          Inr (''Repositories:'' @ [NL] @ ''- '' @ shown d ''full_name'' ''None'' @
               '': None ('' @ shown d ''html_url'' ''None'' @ '')'')"
    by (simp add: list_single_sync list_single_async shown_def)
  have f: "map_of d ''description'' = None \<longrightarrow>
        list_repositories_sync pat (\<lambda>_. Replied (Decoded (JArr [JObj d]))) username =
          Inr (''Repositories:'' @ [NL] @ ''- '' @ shown d ''full_name'' ''None'' @
               '': No description ('' @ shown d ''html_url'' ''None'' @ '')'')
        \<and> list_repositories_async pat (\<lambda>_. Replied (Decoded (JArr [JObj d]))) username =
          Inr (''Repositories:'' @ [NL] @ ''- '' @ shown d ''full_name'' ''None'' @
               '': No description ('' @ shown d ''html_url'' ''None'' @ '')'')"
    by (simp add: list_single_sync list_single_async shown_def)
  show ?thesis using a b c d e f by blast
qed

theorem null_field_rendered_as_None_witness:
  "list_repositories_sync None
     (\<lambda>_. Replied (Decoded (JArr [JObj [(''full_name'', JStr ''o/r''), (''description'', JNull),
                                       (''html_url'', JStr ''u'')]]))) ''octocat'' =
     Inr (''Repositories:'' @ [NL] @ ''- o/r: None (u)'')
   \<and> py_str (dict_get [(''full_name'', JStr ''o/r''), (''description'', JNull),
                        (''html_url'', JStr ''u'')] ''description'' (JStr ''No description'')) = ''None''"
  using null_field_rendered_as_None
    [of "[(''full_name'', JStr ''o/r''), (''description'', JNull), (''html_url'', JStr ''u'')]"
        "''description''" "JStr ''No description''" None "''octocat''"]
  by (simp add: shown_def)

end
